theory Spec2Isabelle
  imports Complex_Main
begin

section \<open>Actor and Critic networks of \<^verbatim>\<open>model.py\<close>\<close>

text \<open>
  The development embeds \<^verbatim>\<open>src/notebooks_python/model.py\<close>: the helper
  \<^verbatim>\<open>hidden_init\<close> and the classes \<^verbatim>\<open>Actor\<close> and \<^verbatim>\<open>Critic\<close>. The functions of
  the tensor library that the file calls (\<^verbatim>\<open>nn.Linear\<close>, \<^verbatim>\<open>nn.BatchNorm1d\<close>,
  \<^verbatim>\<open>F.relu\<close>, \<^verbatim>\<open>torch.tanh\<close>, \<^verbatim>\<open>torch.cat\<close>, \<^verbatim>\<open>uniform_\<close>, \<^verbatim>\<open>torch.manual_seed\<close>)
  are modelled by their documented behaviour on two-dimensional tensors.

  Conventions of the embedding:
  \<^item> tensor elements are real numbers: rounding of the 32-bit floating-point
    arithmetic of the library is not modelled;
  \<^item> an exception is a value of type \<open>error\<close>; a function that mutates an object
    returns the object after the call;
  \<^item> the process-wide random generator is a state passed through every
    function that draws from it.
\<close>

subsection \<open>Errors\<close>

datatype error =
    ShapeMismatch       \<comment> \<open>RuntimeError: shapes cannot be multiplied / sizes of tensors must match\<close>
  | BatchSizeOne        \<comment> \<open>ValueError: Expected more than 1 value per channel when training\<close>
  | RangeError          \<comment> \<open>RuntimeError of \<^verbatim>\<open>uniform_\<close>: a bound is out of range\<close>
  | NegativeDimension   \<comment> \<open>RuntimeError: Trying to create tensor with negative dimension\<close>

subsection \<open>Tensors\<close>

text \<open>
  A two-dimensional tensor carries its shape, as \<^verbatim>\<open>size()\<close> reports it, and its
  elements row by row. The shape is kept apart from the rows so that a tensor with no
  rows still has a number of columns.
\<close>

record tensor =
  shape0 :: nat
  shape1 :: nat
  rows :: "real list list"

definition tensor_ok :: "tensor \<Rightarrow> bool" where
  "tensor_ok t \<longleftrightarrow> length (rows t) = shape0 t \<and> list_all (\<lambda>r. length r = shape1 t) (rows t)"

definition elems :: "tensor \<Rightarrow> real list" where
  "elems t = concat (rows t)"

definition zeros :: "nat \<Rightarrow> nat \<Rightarrow> tensor" where
  "zeros n m = \<lparr>shape0 = n, shape1 = m, rows = replicate n (replicate m 0)\<rparr>"

subsection \<open>Python floats that may be infinite\<close>

text \<open>
  \<^verbatim>\<open>1. / np.sqrt(0)\<close> does not raise: numpy returns \<^verbatim>\<open>inf\<close> (with a warning). The
  bounds that \<^verbatim>\<open>hidden_init\<close> returns are therefore real numbers or an infinity.
\<close>

datatype pyfloat = Fin real | PosInf | NegInf

fun fneg :: "pyfloat \<Rightarrow> pyfloat" where
  "fneg (Fin x) = Fin (- x)"
| "fneg PosInf = NegInf"
| "fneg NegInf = PosInf"

definition one_over :: "real \<Rightarrow> pyfloat" where
  \<comment> \<open>\<^verbatim>\<open>1. / x\<close> for a numpy float \<open>x \<ge> 0\<close>\<close>
  "one_over x = (if x = 0 then PosInf else Fin (1 / x))"

fun fle :: "pyfloat \<Rightarrow> pyfloat \<Rightarrow> bool" where
  "fle NegInf _ = True"
| "fle _ PosInf = True"
| "fle (Fin x) (Fin y) = (x \<le> y)"
| "fle _ _ = False"

definition in_bounds :: "pyfloat \<times> pyfloat \<Rightarrow> real \<Rightarrow> bool" where
  \<comment> \<open>\<open>w\<close> lies between the two bounds of the pair, bounds included\<close>
  "in_bounds b w \<longleftrightarrow> fle (fst b) (Fin w) \<and> fle (Fin w) (snd b)"

subsection \<open>The random generator\<close>

text \<open>
  The state of the generator is the sequence of numbers of the unit interval it will
  deliver. \<^verbatim>\<open>uniform_(lo, hi)\<close> overwrites a tensor element by element, in row-major
  order, with \<open>lo + (hi - lo) * u\<close> for the next number \<open>u\<close>, and raises when a bound
  is not finite or the bounds are in the wrong order. The model calls it
  \<open>uniform_inplace\<close>.
\<close>

type_synonym rng = "nat \<Rightarrow> real"

definition unit_draws :: "rng \<Rightarrow> bool" where
  "unit_draws g \<longleftrightarrow> (\<forall>k. 0 \<le> g k \<and> g k < 1)"

definition advance :: "nat \<Rightarrow> rng \<Rightarrow> rng" where
  "advance k g = (\<lambda>i. g (i + k))"

definition uniform_fill :: "real \<Rightarrow> real \<Rightarrow> nat \<Rightarrow> nat \<Rightarrow> rng \<Rightarrow> real list list" where
  "uniform_fill lo hi n m g =
     map (\<lambda>i. map (\<lambda>j. lo + (hi - lo) * g (i * m + j)) [0..<m]) [0..<n]"

fun uniform_inplace :: "pyfloat \<Rightarrow> pyfloat \<Rightarrow> tensor \<Rightarrow> rng \<Rightarrow> error option \<times> tensor \<times> rng" where
  "uniform_inplace (Fin lo) (Fin hi) t g =
     (if lo \<le> hi
      then (None, t\<lparr>rows := uniform_fill lo hi (shape0 t) (shape1 t) g\<rparr>,
            advance (shape0 t * shape1 t) g)
      else (Some RangeError, t, g))"
| "uniform_inplace _ _ t g = (Some RangeError, t, g)"

definition uniform_vec :: "real \<Rightarrow> real \<Rightarrow> nat \<Rightarrow> rng \<Rightarrow> real list \<times> rng" where
  \<comment> \<open>\<^verbatim>\<open>uniform_\<close> on a one-dimensional tensor of \<open>n\<close> elements, finite bounds\<close>
  "uniform_vec lo hi n g = (map (\<lambda>j. lo + (hi - lo) * g j) [0..<n], advance n g)"

subsection \<open>\<^verbatim>\<open>nn.Linear\<close>\<close>

text \<open>
  A linear layer stores its weight as a tensor of shape \<open>[out_features, in_features]\<close>
  and its bias as a vector of \<open>out_features\<close> elements.
\<close>

record Linear =
  in_features :: nat
  out_features :: nat
  weight :: tensor
  bias :: "real list"

definition Linear_ok :: "Linear \<Rightarrow> bool" where
  "Linear_ok l \<longleftrightarrow>
     tensor_ok (weight l) \<and> shape0 (weight l) = out_features l \<and>
     shape1 (weight l) = in_features l \<and> length (bias l) = out_features l"

definition Linear_init :: "int \<Rightarrow> int \<Rightarrow> rng \<Rightarrow> (error + Linear) \<times> rng" where
  \<comment> \<open>\<^verbatim>\<open>nn.Linear(n_in, n_out)\<close>: the library draws the weight and then the bias from
      the uniform distribution on \<open>\<plusminus> 1 / sqrt n_in\<close>; a weight with no element is left
      alone, and the bias bound is 0 when \<open>n_in = 0\<close>\<close>
  "Linear_init n_in n_out g =
     (if n_in < 0 \<or> n_out < 0 then (Inl NegativeDimension, g)
      else
        let i = nat n_in; k = nat n_out;
            bound = (if i = 0 then 0 else 1 / sqrt (real i));
            (w, g1) = (if i = 0 \<or> k = 0 then (zeros k i, g)
                       else (\<lparr>shape0 = k, shape1 = i, rows = uniform_fill (- bound) bound k i g\<rparr>,
                             advance (k * i) g));
            (b, g2) = uniform_vec (- bound) bound k g1
        in (Inr \<lparr>in_features = i, out_features = k, weight = w, bias = b\<rparr>, g2))"

definition dot :: "real list \<Rightarrow> real list \<Rightarrow> real" where
  "dot u v = sum_list (map2 (*) u v)"

definition affine :: "Linear \<Rightarrow> tensor \<Rightarrow> tensor" where
  \<comment> \<open>\<open>x W\<^sup>T + b\<close>, row by row\<close>
  "affine l x =
     \<lparr>shape0 = shape0 x, shape1 = shape0 (weight l),
      rows = map (\<lambda>r. map2 (\<lambda>w b. dot r w + b) (rows (weight l)) (bias l)) (rows x)\<rparr>"

definition Linear_forward :: "Linear \<Rightarrow> tensor \<Rightarrow> error + tensor" where
  "Linear_forward l x =
     (if shape1 x \<noteq> shape1 (weight l) then Inl ShapeMismatch else Inr (affine l x))"

subsection \<open>\<^verbatim>\<open>hidden_init\<close>\<close>

text \<open>
  \<^verbatim>\<open>
  def hidden_init(layer):
      fan_in = layer.weight.data.size()[0]
      lim = 1. / np.sqrt(fan_in)
      return (-lim, lim)
  \<close>
  The function receives a reference to the layer; the model returns the layer next to
  the result, as it is after the call.
\<close>

definition hidden_init :: "Linear \<Rightarrow> (pyfloat \<times> pyfloat) \<times> Linear" where
  "hidden_init layer =
     (let fan_in = shape0 (weight layer);
          lim = one_over (sqrt (real fan_in))
      in ((fneg lim, lim), layer))"

subsection \<open>Activations and concatenation\<close>

definition relu :: "tensor \<Rightarrow> tensor" where
  "relu x = x\<lparr>rows := map (map (max 0)) (rows x)\<rparr>"

definition tanh_t :: "tensor \<Rightarrow> tensor" where
  \<comment> \<open>\<^verbatim>\<open>torch.tanh\<close>, element by element\<close>
  "tanh_t x = x\<lparr>rows := map (map tanh) (rows x)\<rparr>"

definition concat1 :: "tensor \<Rightarrow> tensor \<Rightarrow> tensor" where
  \<comment> \<open>the rows of \<open>a\<close> followed, row by row, by those of \<open>b\<close>\<close>
  "concat1 a b =
     \<lparr>shape0 = shape0 a, shape1 = shape1 a + shape1 b, rows = map2 (@) (rows a) (rows b)\<rparr>"

definition cat_dim1 :: "tensor \<Rightarrow> tensor \<Rightarrow> error + tensor" where
  \<comment> \<open>\<^verbatim>\<open>torch.cat((a, b), dim=1)\<close>: the sizes must agree except along dimension 1\<close>
  "cat_dim1 a b = (if shape0 a \<noteq> shape0 b then Inl ShapeMismatch else Inr (concat1 a b))"

subsection \<open>\<^verbatim>\<open>nn.BatchNorm1d\<close>\<close>

text \<open>
  The normalisation layer has learnable scale and shift (\<open>bn_weight\<close>, \<open>bn_bias\<close>),
  running statistics and the mode flag \<open>training\<close> of the module. On an input of
  shape \<open>N \<times> C\<close>:
  \<^item> in training mode the counter of batches goes up first; a batch of one row is
    refused; an empty batch is returned as it is; otherwise every column is normalised
    with its own mean and (biased) variance, and the running statistics move towards
    the mean and the unbiased variance of the batch by the factor \<open>momentum\<close>;
  \<^item> in evaluation mode every column is normalised with the running statistics,
    which stay as they are.
\<close>

record BatchNorm1d =
  num_features :: nat
  eps :: real
  momentum :: real
  bn_weight :: "real list"
  bn_bias :: "real list"
  running_mean :: "real list"
  running_var :: "real list"
  num_batches_tracked :: nat
  training :: bool

definition BatchNorm1d_init :: "int \<Rightarrow> error + BatchNorm1d" where
  "BatchNorm1d_init n =
     (if n < 0 then Inl NegativeDimension
      else Inr \<lparr>num_features = nat n, eps = 1 / 100000, momentum = 1 / 10,
                bn_weight = replicate (nat n) 1, bn_bias = replicate (nat n) 0,
                running_mean = replicate (nat n) 0, running_var = replicate (nat n) 1,
                num_batches_tracked = 0, training = True\<rparr>)"

definition BatchNorm1d_ok :: "BatchNorm1d \<Rightarrow> bool" where
  "BatchNorm1d_ok b \<longleftrightarrow>
     length (bn_weight b) = num_features b \<and> length (bn_bias b) = num_features b \<and>
     length (running_mean b) = num_features b \<and> length (running_var b) = num_features b \<and>
     0 < eps b \<and> 0 \<le> momentum b \<and> momentum b \<le> 1 \<and>
     list_all (\<lambda>v. 0 \<le> v) (running_var b)"

definition column :: "tensor \<Rightarrow> nat \<Rightarrow> real list" where
  "column x j = map (\<lambda>r. r ! j) (rows x)"

definition mean :: "real list \<Rightarrow> real" where
  "mean xs = sum_list xs / real (length xs)"

definition sq_dev :: "real list \<Rightarrow> real" where
  \<comment> \<open>the sum of the squared deviations from the mean\<close>
  "sq_dev xs = sum_list (map (\<lambda>x. (x - mean xs)\<^sup>2) xs)"

definition batch_mean :: "tensor \<Rightarrow> real list" where
  "batch_mean x = map (\<lambda>j. mean (column x j)) [0..<shape1 x]"

definition batch_var :: "tensor \<Rightarrow> real list" where
  \<comment> \<open>biased: divided by the number of rows\<close>
  "batch_var x = map (\<lambda>j. sq_dev (column x j) / real (shape0 x)) [0..<shape1 x]"

definition batch_var_unbiased :: "tensor \<Rightarrow> real list" where
  "batch_var_unbiased x = map (\<lambda>j. sq_dev (column x j) / (real (shape0 x) - 1)) [0..<shape1 x]"

definition normalize :: "BatchNorm1d \<Rightarrow> real list \<Rightarrow> real list \<Rightarrow> tensor \<Rightarrow> tensor" where
  "normalize b ms vs x =
     x\<lparr>rows := map (\<lambda>r. map (\<lambda>j. (r ! j - ms ! j) / sqrt (vs ! j + eps b) * bn_weight b ! j
                                     + bn_bias b ! j) [0..<shape1 x]) (rows x)\<rparr>"

definition moving_average :: "real \<Rightarrow> real list \<Rightarrow> real list \<Rightarrow> real list" where
  "moving_average m old new = map2 (\<lambda>a b. (1 - m) * a + m * b) old new"

definition BatchNorm1d_forward :: "BatchNorm1d \<Rightarrow> tensor \<Rightarrow> (error + tensor) \<times> BatchNorm1d" where
  "BatchNorm1d_forward b x =
     (if training b then
        (let b1 = b\<lparr>num_batches_tracked := num_batches_tracked b + 1\<rparr> in
         if shape0 x = 1 then (Inl BatchSizeOne, b1)
         else if shape1 x \<noteq> num_features b then (Inl ShapeMismatch, b1)
         else if shape0 x = 0 then (Inr x, b1)
         else (Inr (normalize b (batch_mean x) (batch_var x) x),
               b1\<lparr>running_mean := moving_average (momentum b) (running_mean b) (batch_mean x),
                  running_var := moving_average (momentum b) (running_var b)
                                   (batch_var_unbiased x)\<rparr>))
      else if shape1 x \<noteq> num_features b then (Inl ShapeMismatch, b)
      else (Inr (normalize b (running_mean b) (running_var b) x), b))"

definition batchnorm :: "BatchNorm1d \<Rightarrow> tensor \<Rightarrow> tensor" where
  \<comment> \<open>the normalised tensor alone, for a batch that the layer accepts: batch
      statistics in training mode, running statistics in evaluation mode\<close>
  "batchnorm b x =
     (if training b then normalize b (batch_mean x) (batch_var x) x
      else normalize b (running_mean b) (running_var b) x)"

subsection \<open>The Actor\<close>

text \<open>
  The field \<^verbatim>\<open>self.seed\<close> holds the generator object that \<^verbatim>\<open>torch.manual_seed\<close>
  returns, which is the process-wide generator itself; the model keeps that generator
  as the state passed along and has no field for it. The parameter \<open>G\<close> of the
  constructors is the library's map from a seed to the state of the seeded generator.
\<close>

record Actor =
  fc1 :: Linear
  fc2 :: Linear
  fc3 :: Linear

definition reinit_hidden :: "Linear \<Rightarrow> rng \<Rightarrow> error option \<times> Linear \<times> rng" where
  \<comment> \<open>\<^verbatim>\<open>layer.weight.data.uniform_(*hidden_init(layer))\<close>\<close>
  "reinit_hidden layer g =
     (let (lims, layer1) = hidden_init layer;
          (e, w, g1) = uniform_inplace (fst lims) (snd lims) (weight layer1) g
      in (e, layer1\<lparr>weight := w\<rparr>, g1))"

definition reinit_final :: "Linear \<Rightarrow> rng \<Rightarrow> error option \<times> Linear \<times> rng" where
  \<comment> \<open>\<^verbatim>\<open>layer.weight.data.uniform_(-3e-3, 3e-3)\<close>\<close>
  "reinit_final layer g =
     (let (e, w, g1) = uniform_inplace (Fin (- (3 / 1000))) (Fin (3 / 1000)) (weight layer) g
      in (e, layer\<lparr>weight := w\<rparr>, g1))"

definition Actor_reset_parameters :: "Actor \<Rightarrow> rng \<Rightarrow> error option \<times> Actor \<times> rng" where
  "Actor_reset_parameters self g =
     (let (e1, l1, g1) = reinit_hidden (fc1 self) g; self1 = self\<lparr>fc1 := l1\<rparr> in
      if e1 \<noteq> None then (e1, self1, g1)
      else
        let (e2, l2, g2) = reinit_hidden (fc2 self1) g1; self2 = self1\<lparr>fc2 := l2\<rparr> in
        if e2 \<noteq> None then (e2, self2, g2)
        else
          let (e3, l3, g3) = reinit_final (fc3 self2) g2 in (e3, self2\<lparr>fc3 := l3\<rparr>, g3))"

definition Actor_init ::
  "(int \<Rightarrow> rng) \<Rightarrow> int \<Rightarrow> int \<Rightarrow> int \<Rightarrow> int \<Rightarrow> int \<Rightarrow> rng \<Rightarrow> (error + Actor) \<times> rng" where
  "Actor_init G state_size action_size seed fc1_units fc2_units g0 =
     (let g = G seed in
      case Linear_init state_size fc1_units g of
        (Inl e, g1) \<Rightarrow> (Inl e, g1)
      | (Inr l1, g1) \<Rightarrow>
          (case Linear_init fc1_units fc2_units g1 of
             (Inl e, g2) \<Rightarrow> (Inl e, g2)
           | (Inr l2, g2) \<Rightarrow>
               (case Linear_init fc2_units action_size g2 of
                  (Inl e, g3) \<Rightarrow> (Inl e, g3)
                | (Inr l3, g3) \<Rightarrow>
                    (case Actor_reset_parameters \<lparr>fc1 = l1, fc2 = l2, fc3 = l3\<rparr> g3 of
                       (Some e, self, g4) \<Rightarrow> (Inl e, g4)
                     | (None, self, g4) \<Rightarrow> (Inr self, g4)))))"

definition Actor_forward :: "Actor \<Rightarrow> tensor \<Rightarrow> error + tensor" where
  "Actor_forward self state =
     (case Linear_forward (fc1 self) state of
        Inl e \<Rightarrow> Inl e
      | Inr h1 \<Rightarrow>
          (case Linear_forward (fc2 self) (relu h1) of
             Inl e \<Rightarrow> Inl e
           | Inr h2 \<Rightarrow>
               (case Linear_forward (fc3 self) (relu h2) of
                  Inl e \<Rightarrow> Inl e
                | Inr h3 \<Rightarrow> Inr (tanh_t h3))))"

definition Actor_ok :: "Actor \<Rightarrow> nat \<Rightarrow> nat \<Rightarrow> bool" where
  \<comment> \<open>the shapes that \<^verbatim>\<open>Actor(state_size, action_size, ...)\<close> fixes\<close>
  "Actor_ok self state_size action_size \<longleftrightarrow>
     Linear_ok (fc1 self) \<and> Linear_ok (fc2 self) \<and> Linear_ok (fc3 self) \<and>
     in_features (fc1 self) = state_size \<and>
     in_features (fc2 self) = out_features (fc1 self) \<and>
     in_features (fc3 self) = out_features (fc2 self) \<and>
     out_features (fc3 self) = action_size"

subsection \<open>The Critic\<close>

record Critic =
  fcs1 :: Linear
  bn1 :: BatchNorm1d
  cfc2 :: Linear
  cfc3 :: Linear

text \<open>
  The fields \<open>cfc2\<close> and \<open>cfc3\<close> are \<^verbatim>\<open>self.fc2\<close> and \<^verbatim>\<open>self.fc3\<close> of the Critic
  (the names \<open>fc2\<close> and \<open>fc3\<close> are those of the Actor's fields).
\<close>

definition Critic_reset_parameters :: "Critic \<Rightarrow> rng \<Rightarrow> error option \<times> Critic \<times> rng" where
  "Critic_reset_parameters self g =
     (let (e1, l1, g1) = reinit_hidden (fcs1 self) g; self1 = self\<lparr>fcs1 := l1\<rparr> in
      if e1 \<noteq> None then (e1, self1, g1)
      else
        let (e2, l2, g2) = reinit_hidden (cfc2 self1) g1; self2 = self1\<lparr>cfc2 := l2\<rparr> in
        if e2 \<noteq> None then (e2, self2, g2)
        else
          let (e3, l3, g3) = reinit_final (cfc3 self2) g2 in (e3, self2\<lparr>cfc3 := l3\<rparr>, g3))"

definition Critic_init ::
  "(int \<Rightarrow> rng) \<Rightarrow> int \<Rightarrow> int \<Rightarrow> int \<Rightarrow> int \<Rightarrow> int \<Rightarrow> rng \<Rightarrow> (error + Critic) \<times> rng" where
  "Critic_init G state_size action_size seed fcs1_units fc2_units g0 =
     (let g = G seed in
      case Linear_init state_size fcs1_units g of
        (Inl e, g1) \<Rightarrow> (Inl e, g1)
      | (Inr l1, g1) \<Rightarrow>
          (case BatchNorm1d_init fcs1_units of
             Inl e \<Rightarrow> (Inl e, g1)
           | Inr b \<Rightarrow>
               (case Linear_init (fcs1_units + action_size) fc2_units g1 of
                  (Inl e, g2) \<Rightarrow> (Inl e, g2)
                | (Inr l2, g2) \<Rightarrow>
                    (case Linear_init fc2_units 1 g2 of
                       (Inl e, g3) \<Rightarrow> (Inl e, g3)
                     | (Inr l3, g3) \<Rightarrow>
                         (case Critic_reset_parameters
                                 \<lparr>fcs1 = l1, bn1 = b, cfc2 = l2, cfc3 = l3\<rparr> g3 of
                            (Some e, self, g4) \<Rightarrow> (Inl e, g4)
                          | (None, self, g4) \<Rightarrow> (Inr self, g4))))))"

definition Critic_forward :: "Critic \<Rightarrow> tensor \<Rightarrow> tensor \<Rightarrow> (error + tensor) \<times> Critic" where
  "Critic_forward self state action =
     (case Linear_forward (fcs1 self) state of
        Inl e \<Rightarrow> (Inl e, self)
      | Inr h \<Rightarrow>
          (case BatchNorm1d_forward (bn1 self) h of
             (Inl e, b) \<Rightarrow> (Inl e, self\<lparr>bn1 := b\<rparr>)
           | (Inr n, b) \<Rightarrow>
               (let self1 = self\<lparr>bn1 := b\<rparr>; xs = relu n in
                case cat_dim1 xs action of
                  Inl e \<Rightarrow> (Inl e, self1)
                | Inr x \<Rightarrow>
                    (case Linear_forward (cfc2 self1) x of
                       Inl e \<Rightarrow> (Inl e, self1)
                     | Inr h2 \<Rightarrow>
                         (case Linear_forward (cfc3 self1) (relu h2) of
                            Inl e \<Rightarrow> (Inl e, self1)
                          | Inr q \<Rightarrow> (Inr q, self1))))))"

definition Critic_ok :: "Critic \<Rightarrow> nat \<Rightarrow> nat \<Rightarrow> bool" where
  \<comment> \<open>the shapes that \<^verbatim>\<open>Critic(state_size, action_size, ...)\<close> fixes\<close>
  "Critic_ok self state_size action_size \<longleftrightarrow>
     Linear_ok (fcs1 self) \<and> BatchNorm1d_ok (bn1 self) \<and>
     Linear_ok (cfc2 self) \<and> Linear_ok (cfc3 self) \<and>
     in_features (fcs1 self) = state_size \<and>
     num_features (bn1 self) = out_features (fcs1 self) \<and>
     in_features (cfc2 self) = out_features (fcs1 self) + action_size \<and>
     in_features (cfc3 self) = out_features (cfc2 self) \<and>
     out_features (cfc3 self) = 1"

subsection \<open>Example inputs\<close>

text \<open>Small networks and batches on which the properties below are evaluated.\<close>

definition ex_draws :: rng where
  "ex_draws = (\<lambda>k. 1 / 2)"

definition ex_G :: "int \<Rightarrow> rng" where
  "ex_G = (\<lambda>seed k. if even (seed + int k) then 1 / 4 else 3 / 4)"

definition layer_4x1 :: Linear where
  \<comment> \<open>a layer with one input feature and four output features\<close>
  "layer_4x1 = \<lparr>in_features = 1, out_features = 4,
                 weight = \<lparr>shape0 = 4, shape1 = 1, rows = [[1], [1], [1], [1]]\<rparr>,
                 bias = [0, 0, 0, 0]\<rparr>"

definition actor_ex :: Actor where
  "actor_ex =
     \<lparr>fc1 = \<lparr>in_features = 2, out_features = 1,
             weight = \<lparr>shape0 = 1, shape1 = 2, rows = [[1, 1]]\<rparr>, bias = [0]\<rparr>,
      fc2 = \<lparr>in_features = 1, out_features = 1,
             weight = \<lparr>shape0 = 1, shape1 = 1, rows = [[1]]\<rparr>, bias = [1]\<rparr>,
      fc3 = \<lparr>in_features = 1, out_features = 1,
             weight = \<lparr>shape0 = 1, shape1 = 1, rows = [[1]]\<rparr>, bias = [- 1]\<rparr>\<rparr>"

definition critic_ex :: Critic where
  "critic_ex =
     \<lparr>fcs1 = \<lparr>in_features = 1, out_features = 1,
              weight = \<lparr>shape0 = 1, shape1 = 1, rows = [[1]]\<rparr>, bias = [0]\<rparr>,
      bn1 = \<lparr>num_features = 1, eps = 1 / 100000, momentum = 1 / 10,
             bn_weight = [1], bn_bias = [0], running_mean = [0], running_var = [1],
             num_batches_tracked = 0, training = True\<rparr>,
      cfc2 = \<lparr>in_features = 2, out_features = 1,
              weight = \<lparr>shape0 = 1, shape1 = 2, rows = [[0, 1]]\<rparr>, bias = [0]\<rparr>,
      cfc3 = \<lparr>in_features = 1, out_features = 1,
              weight = \<lparr>shape0 = 1, shape1 = 1, rows = [[2]]\<rparr>, bias = [3]\<rparr>\<rparr>"

definition critic_ex_eval :: Critic where
  \<comment> \<open>\<open>critic_ex\<close> after \<^verbatim>\<open>eval()\<close>\<close>
  "critic_ex_eval = critic_ex\<lparr>bn1 := (bn1 critic_ex)\<lparr>training := False\<rparr>\<rparr>"

definition state_2x2 :: tensor where
  "state_2x2 = \<lparr>shape0 = 2, shape1 = 2, rows = [[1, 2], [0, - 1]]\<rparr>"

definition state_1x1 :: tensor where
  "state_1x1 = \<lparr>shape0 = 1, shape1 = 1, rows = [[1]]\<rparr>"

definition state_2x1 :: tensor where
  "state_2x1 = \<lparr>shape0 = 2, shape1 = 1, rows = [[1], [1]]\<rparr>"

definition action_1x1 :: tensor where
  "action_1x1 = \<lparr>shape0 = 1, shape1 = 1, rows = [[2]]\<rparr>"

definition action_2x1 :: tensor where
  "action_2x1 = \<lparr>shape0 = 2, shape1 = 1, rows = [[2], [5]]\<rparr>"

section \<open>Properties\<close>

subsection \<open>Shapes\<close>

lemma affine_shape [simp]:
  "shape0 (affine l x) = shape0 x" "shape1 (affine l x) = shape0 (weight l)"
  by (simp_all add: affine_def)

lemma affine_ok:
  assumes "Linear_ok l" and "tensor_ok x"
  shows "tensor_ok (affine l x)"
  using assms by (simp add: affine_def tensor_ok_def Linear_ok_def list_all_iff)

lemma relu_shape [simp]: "shape0 (relu x) = shape0 x" "shape1 (relu x) = shape1 x"
  by (simp_all add: relu_def)

lemma relu_ok: "tensor_ok x \<Longrightarrow> tensor_ok (relu x)"
  by (simp add: relu_def tensor_ok_def list_all_iff)

lemma tanh_t_shape [simp]: "shape0 (tanh_t x) = shape0 x" "shape1 (tanh_t x) = shape1 x"
  by (simp_all add: tanh_t_def)

lemma tanh_t_ok: "tensor_ok x \<Longrightarrow> tensor_ok (tanh_t x)"
  by (simp add: tanh_t_def tensor_ok_def list_all_iff)

lemma concat1_shape [simp]:
  "shape0 (concat1 a b) = shape0 a" "shape1 (concat1 a b) = shape1 a + shape1 b"
  by (simp_all add: concat1_def)

lemma concat1_ok:
  assumes "tensor_ok a" and "tensor_ok b" and "shape0 b = shape0 a"
  shows "tensor_ok (concat1 a b)"
  using assms by (auto simp: concat1_def tensor_ok_def list_all_iff set_zip)

lemma normalize_shape [simp]:
  "shape0 (normalize b ms vs x) = shape0 x" "shape1 (normalize b ms vs x) = shape1 x"
  by (simp_all add: normalize_def)

lemma normalize_ok: "tensor_ok x \<Longrightarrow> tensor_ok (normalize b ms vs x)"
  by (simp add: normalize_def tensor_ok_def list_all_iff)

lemma batchnorm_shape [simp]:
  "shape0 (batchnorm b x) = shape0 x" "shape1 (batchnorm b x) = shape1 x"
  by (simp_all add: batchnorm_def)

lemma batchnorm_ok: "tensor_ok x \<Longrightarrow> tensor_ok (batchnorm b x)"
  by (simp add: batchnorm_def normalize_ok)

lemma zeros_ok: "tensor_ok (zeros n m)"
  by (simp add: zeros_def tensor_ok_def list_all_iff)

lemma uniform_fill_ok: "tensor_ok \<lparr>shape0 = n, shape1 = m, rows = uniform_fill lo hi n m g\<rparr>"
  by (simp add: tensor_ok_def uniform_fill_def list_all_iff)

lemma ex_tensors_ok:
  "tensor_ok state_2x2" "tensor_ok state_1x1" "tensor_ok state_2x1"
  "tensor_ok action_1x1" "tensor_ok action_2x1"
  by (simp_all add: tensor_ok_def state_2x2_def state_1x1_def state_2x1_def
      action_1x1_def action_2x1_def)

subsection \<open>The layers\<close>

lemma Linear_forward_ok:
  assumes "Linear_ok l" and "shape1 x = in_features l"
  shows "Linear_forward l x = Inr (affine l x)"
  using assms by (simp add: Linear_forward_def Linear_ok_def)

lemma Linear_forward_mismatch:
  assumes "Linear_ok l" and "shape1 x \<noteq> in_features l"
  shows "Linear_forward l x = Inl ShapeMismatch"
  using assms by (simp add: Linear_forward_def Linear_ok_def)

lemma Linear_init_ok:
  assumes "0 \<le> n_in" and "0 \<le> n_out"
  shows "\<exists>l g'. Linear_init n_in n_out g = (Inr l, g') \<and> Linear_ok l \<and>
           in_features l = nat n_in \<and> out_features l = nat n_out"
proof (cases "nat n_in = 0 \<or> nat n_out = 0")
  case True
  then show ?thesis
    using assms
    by (simp add: Linear_init_def Let_def uniform_vec_def Linear_ok_def zeros_def
        tensor_ok_def list_all_iff)
next
  case False
  then show ?thesis
    using assms
    by (simp add: Linear_init_def Let_def uniform_vec_def Linear_ok_def uniform_fill_def
        tensor_ok_def list_all_iff)
qed

lemma BatchNorm1d_init_ok:
  assumes "0 \<le> n"
  shows "\<exists>b. BatchNorm1d_init n = Inr b \<and> BatchNorm1d_ok b \<and>
           num_features b = nat n \<and> training b"
  using assms by (simp add: BatchNorm1d_init_def BatchNorm1d_ok_def list_all_iff)

lemma BatchNorm1d_forward_accepts:
  assumes "shape1 x = num_features b" and "tensor_ok x" and "training b \<longrightarrow> shape0 x \<noteq> 1"
  shows "fst (BatchNorm1d_forward b x) = Inr (batchnorm b x)"
proof (cases "training b \<and> shape0 x = 0")
  case True
  then have "rows x = []" using assms(2) by (simp add: tensor_ok_def)
  then have "normalize b (batch_mean x) (batch_var x) x = x"
    by (simp add: normalize_def)
  then show ?thesis using True assms(1)
    by (simp add: BatchNorm1d_forward_def batchnorm_def Let_def)
next
  case False
  then show ?thesis using assms(1,3)
    by (auto simp: BatchNorm1d_forward_def batchnorm_def Let_def)
qed

lemma BatchNorm1d_forward_refuses:
  assumes "training b" and "shape0 x = 1"
  shows "fst (BatchNorm1d_forward b x) = Inl BatchSizeOne"
  using assms by (simp add: BatchNorm1d_forward_def Let_def)

lemma cat_dim1_ok: "shape0 a = shape0 b \<Longrightarrow> cat_dim1 a b = Inr (concat1 a b)"
  by (simp add: cat_dim1_def)

lemma cat_dim1_mismatch: "shape0 a \<noteq> shape0 b \<Longrightarrow> cat_dim1 a b = Inl ShapeMismatch"
  by (simp add: cat_dim1_def)

subsection \<open>\<^verbatim>\<open>hidden_init\<close>\<close>

lemma hidden_init_snd: "snd (hidden_init l) = l"
  by (simp add: hidden_init_def Let_def)

lemma hidden_init_fst:
  "fst (hidden_init l) =
     (fneg (one_over (sqrt (real (shape0 (weight l))))),
      one_over (sqrt (real (shape0 (weight l)))))"
  by (simp add: hidden_init_def Let_def)

text \<open>
  What the code computes on a layer as \<^verbatim>\<open>nn.Linear\<close> builds it: the bound is taken
  from the number of output features, the first dimension of the weight.
\<close>

lemma hidden_init_out_features:
  assumes "Linear_ok l" and "0 < out_features l"
  shows "fst (hidden_init l) =
           (Fin (- (1 / sqrt (real (out_features l)))), Fin (1 / sqrt (real (out_features l))))"
  using assms by (simp add: hidden_init_def Linear_ok_def one_over_def Let_def)

text \<open>
  C1. The claim: for every layer, \<^verbatim>\<open>hidden_init\<close> returns \<open>(-lim, lim)\<close> with
  \<open>lim = 1 / sqrt fan_in\<close>, \<open>fan_in\<close> the number of input features of the layer.
  The code reads \<^verbatim>\<open>size()[0]\<close> of a weight of shape \<open>[out_features, in_features]\<close>,
  which is the number of output features. On the layer \<open>layer_4x1\<close>, with one input
  feature and four output features, it returns \<open>(-1/2, 1/2)\<close>, where the bound of
  the claim is \<open>1 / sqrt 1 = 1\<close>.
\<close>

theorem hidden_init_uses_out_features:
  "Linear_ok layer_4x1 \<and>
   fst (hidden_init layer_4x1) = (Fin (- (1 / 2)), Fin (1 / 2)) \<and>
   1 / sqrt (real (in_features layer_4x1)) = 1"
  by (simp add: layer_4x1_def hidden_init_def one_over_def Linear_ok_def tensor_ok_def)

lemma reinit_hidden_eq:
  "reinit_hidden l g =
     (if shape0 (weight l) = 0 then (Some RangeError, l, g)
      else (None,
            l\<lparr>weight := (weight l)\<lparr>rows := uniform_fill (- (1 / sqrt (real (shape0 (weight l)))))
                  (1 / sqrt (real (shape0 (weight l)))) (shape0 (weight l)) (shape1 (weight l)) g\<rparr>\<rparr>,
            advance (shape0 (weight l) * shape1 (weight l)) g))"
  by (simp add: reinit_hidden_def hidden_init_def Let_def one_over_def)

lemma reinit_final_eq:
  "reinit_final l g =
     (None,
      l\<lparr>weight := (weight l)\<lparr>rows := uniform_fill (- (3 / 1000)) (3 / 1000)
                                   (shape0 (weight l)) (shape1 (weight l)) g\<rparr>\<rparr>,
      advance (shape0 (weight l) * shape1 (weight l)) g)"
  by (simp add: reinit_final_def)

text \<open>
  C10. \<^verbatim>\<open>hidden_init\<close> changes nothing: the layer is after the call what it was
  before; the result depends on the shape of the weight alone, not on the values of the
  weight nor on the bias; the overwrite is done by the caller, whose line
  \<^verbatim>\<open>layer.weight.data.uniform_(*hidden_init(layer))\<close> replaces the rows of the weight
  by fresh draws.
\<close>

theorem hidden_init_frame:
  "snd (hidden_init l) = l \<and>
   fst (hidden_init (l\<lparr>weight := (weight l)\<lparr>rows := rs\<rparr>, bias := b\<rparr>)) = fst (hidden_init l) \<and>
   (0 < shape0 (weight l) \<longrightarrow>
      fst (snd (reinit_hidden l g)) =
        l\<lparr>weight := (weight l)\<lparr>rows := uniform_fill (- (1 / sqrt (real (shape0 (weight l)))))
                  (1 / sqrt (real (shape0 (weight l)))) (shape0 (weight l)) (shape1 (weight l)) g\<rparr>\<rparr>)"
  by (simp add: hidden_init_snd hidden_init_fst reinit_hidden_eq)

theorem hidden_init_frame_witness:
  "snd (hidden_init layer_4x1) = layer_4x1 \<and>
   fst (hidden_init (layer_4x1\<lparr>weight := (weight layer_4x1)\<lparr>rows := [[1], [2], [3], [4]]\<rparr>,
                              bias := [1, 1, 1, 1]\<rparr>)) = fst (hidden_init layer_4x1) \<and>
   rows (weight (fst (snd (reinit_hidden layer_4x1 ex_draws)))) = [[0], [0], [0], [0]]"
proof -
  have p: "0 < shape0 (weight layer_4x1)" by (simp add: layer_4x1_def)
  have "uniform_fill (- (1 / sqrt (real (shape0 (weight layer_4x1)))))
          (1 / sqrt (real (shape0 (weight layer_4x1)))) (shape0 (weight layer_4x1))
          (shape1 (weight layer_4x1)) ex_draws = [[0], [0], [0], [0]]"
    by (simp add: layer_4x1_def uniform_fill_def ex_draws_def upt_rec)
  then show ?thesis
    using hidden_init_frame [where l = layer_4x1 and rs = "[[1], [2], [3], [4]]"
        and b = "[1, 1, 1, 1]" and g = ex_draws] p
    by simp
qed

subsection \<open>\<^verbatim>\<open>reset_parameters\<close>\<close>

lemma in_bounds_Fin [simp]: "in_bounds (Fin lo, Fin hi) w \<longleftrightarrow> lo \<le> w \<and> w \<le> hi"
  by (simp add: in_bounds_def)

lemma unit_draws_advance: "unit_draws g \<Longrightarrow> unit_draws (advance k g)"
  by (simp add: unit_draws_def advance_def)

lemma uniform_value_bounds:
  fixes lo hi u :: real
  assumes "lo \<le> hi" and "0 \<le> u" and "u < 1"
  shows "lo \<le> lo + (hi - lo) * u" and "lo + (hi - lo) * u \<le> hi"
proof -
  have "0 \<le> (hi - lo) * u" using assms by simp
  then show "lo \<le> lo + (hi - lo) * u" by simp
  have "(hi - lo) * u \<le> (hi - lo) * 1"
    using assms by (intro mult_left_mono) simp_all
  then show "lo + (hi - lo) * u \<le> hi" by simp
qed

lemma uniform_fill_bounds:
  assumes "unit_draws g" and "lo \<le> hi"
  shows "list_all (in_bounds (Fin lo, Fin hi)) (concat (uniform_fill lo hi n m g))"
  using assms uniform_value_bounds [of lo hi]
  by (auto simp: uniform_fill_def list_all_iff unit_draws_def)

lemma reinit_hidden_draws: "unit_draws g \<Longrightarrow> unit_draws (snd (snd (reinit_hidden l g)))"
  by (simp add: reinit_hidden_eq unit_draws_advance)

lemma reinit_hidden_bounds:
  assumes "unit_draws g" and "fst (reinit_hidden l g) = None"
  shows "list_all (in_bounds (fst (hidden_init (fst (snd (reinit_hidden l g))))))
           (elems (weight (fst (snd (reinit_hidden l g)))))"
proof -
  from assms(2) have pos: "shape0 (weight l) \<noteq> 0"
    by (auto simp: reinit_hidden_eq split: if_splits)
  let ?lim = "1 / sqrt (real (shape0 (weight l)))"
  have "- ?lim \<le> ?lim" by simp
  from uniform_fill_bounds [OF assms(1) this]
  show ?thesis using pos
    by (simp add: reinit_hidden_eq hidden_init_fst one_over_def elems_def)
qed

lemma reinit_final_bounds:
  assumes "unit_draws g"
  shows "list_all (in_bounds (Fin (- (3 / 1000)), Fin (3 / 1000)))
           (elems (weight (fst (snd (reinit_final l g)))))"
proof -
  have "- (3 / 1000) \<le> (3 / 1000 :: real)" by simp
  from uniform_fill_bounds [OF assms this]
  show ?thesis by (simp add: reinit_final_eq elems_def)
qed

lemma reinit_hidden_ok:
  assumes "Linear_ok l"
  shows "Linear_ok (fst (snd (reinit_hidden l g)))"
    and "in_features (fst (snd (reinit_hidden l g))) = in_features l"
    and "out_features (fst (snd (reinit_hidden l g))) = out_features l"
  using assms
  by (simp_all add: reinit_hidden_eq Linear_ok_def tensor_ok_def uniform_fill_def list_all_iff)

lemma reinit_final_ok:
  assumes "Linear_ok l"
  shows "Linear_ok (fst (snd (reinit_final l g)))"
    and "in_features (fst (snd (reinit_final l g))) = in_features l"
    and "out_features (fst (snd (reinit_final l g))) = out_features l"
  using assms
  by (simp_all add: reinit_final_eq Linear_ok_def tensor_ok_def uniform_fill_def list_all_iff)

lemma reinit_hidden_None:
  "Linear_ok l \<Longrightarrow> 0 < out_features l \<Longrightarrow> fst (reinit_hidden l g) = None"
  by (simp add: reinit_hidden_eq Linear_ok_def)

text \<open>The three lines of \<^verbatim>\<open>reset_parameters\<close>, with the results of each named.\<close>

lemma Actor_reset_parameters_result:
  "Actor_reset_parameters self g =
     (let r1 = reinit_hidden (fc1 self) g;
          r2 = reinit_hidden (fc2 self) (snd (snd r1));
          r3 = reinit_final (fc3 self) (snd (snd r2))
      in if fst r1 \<noteq> None then (fst r1, self\<lparr>fc1 := fst (snd r1)\<rparr>, snd (snd r1))
         else if fst r2 \<noteq> None
           then (fst r2, self\<lparr>fc1 := fst (snd r1), fc2 := fst (snd r2)\<rparr>, snd (snd r2))
         else (fst r3, self\<lparr>fc1 := fst (snd r1), fc2 := fst (snd r2), fc3 := fst (snd r3)\<rparr>,
               snd (snd r3)))"
  by (simp add: Actor_reset_parameters_def Let_def case_prod_beta)

lemma Critic_reset_parameters_result:
  "Critic_reset_parameters self g =
     (let r1 = reinit_hidden (fcs1 self) g;
          r2 = reinit_hidden (cfc2 self) (snd (snd r1));
          r3 = reinit_final (cfc3 self) (snd (snd r2))
      in if fst r1 \<noteq> None then (fst r1, self\<lparr>fcs1 := fst (snd r1)\<rparr>, snd (snd r1))
         else if fst r2 \<noteq> None
           then (fst r2, self\<lparr>fcs1 := fst (snd r1), cfc2 := fst (snd r2)\<rparr>, snd (snd r2))
         else (fst r3, self\<lparr>fcs1 := fst (snd r1), cfc2 := fst (snd r2), cfc3 := fst (snd r3)\<rparr>,
               snd (snd r3)))"
  by (simp add: Critic_reset_parameters_def Let_def case_prod_beta)

text \<open>
  C9. \<^verbatim>\<open>reset_parameters\<close> leaves every bias as it was: after the call on an Actor
  the biases of \<open>fc1\<close>, \<open>fc2\<close> and \<open>fc3\<close>, and after the call on a Critic the biases
  of \<open>fcs1\<close>, \<open>fc2\<close> and \<open>fc3\<close> and the whole normalisation layer, are those from
  before the call (whether or not the call raises).
\<close>

theorem reset_parameters_keeps_biases:
  "bias (fc1 (fst (snd (Actor_reset_parameters a g)))) = bias (fc1 a) \<and>
   bias (fc2 (fst (snd (Actor_reset_parameters a g)))) = bias (fc2 a) \<and>
   bias (fc3 (fst (snd (Actor_reset_parameters a g)))) = bias (fc3 a) \<and>
   bias (fcs1 (fst (snd (Critic_reset_parameters c g)))) = bias (fcs1 c) \<and>
   bias (cfc2 (fst (snd (Critic_reset_parameters c g)))) = bias (cfc2 c) \<and>
   bias (cfc3 (fst (snd (Critic_reset_parameters c g)))) = bias (cfc3 c) \<and>
   bn1 (fst (snd (Critic_reset_parameters c g))) = bn1 c"
  by (simp add: Actor_reset_parameters_result Critic_reset_parameters_result Let_def
      reinit_hidden_eq reinit_final_eq)

theorem reset_parameters_keeps_biases_witness:
  "bias (fc1 (fst (snd (Actor_reset_parameters actor_ex ex_draws)))) = bias (fc1 actor_ex) \<and>
   bias (fc2 (fst (snd (Actor_reset_parameters actor_ex ex_draws)))) = bias (fc2 actor_ex) \<and>
   bias (fc3 (fst (snd (Actor_reset_parameters actor_ex ex_draws)))) = bias (fc3 actor_ex) \<and>
   bias (fcs1 (fst (snd (Critic_reset_parameters critic_ex ex_draws)))) = bias (fcs1 critic_ex) \<and>
   bias (cfc2 (fst (snd (Critic_reset_parameters critic_ex ex_draws)))) = bias (cfc2 critic_ex) \<and>
   bias (cfc3 (fst (snd (Critic_reset_parameters critic_ex ex_draws)))) = bias (cfc3 critic_ex) \<and>
   bn1 (fst (snd (Critic_reset_parameters critic_ex ex_draws))) = bn1 critic_ex"
  by (rule reset_parameters_keeps_biases)

text \<open>
  C4. After \<^verbatim>\<open>reset_parameters\<close> on an Actor or a Critic, every weight of \<open>fc3\<close>
  lies between \<open>-0.003\<close> and \<open>0.003\<close>, and every weight of \<open>fc1\<close> and \<open>fc2\<close>
  (of \<open>fcs1\<close> and \<open>fc2\<close> for the Critic) lies between the two bounds that
  \<^verbatim>\<open>hidden_init\<close> returns for that layer; bounds included. The generator delivers
  numbers of the unit interval. The call completes when the weights of the two hidden
  layers have at least one row.
\<close>

theorem reset_parameters_weight_bounds:
  assumes "unit_draws g"
  shows "(0 < shape0 (weight (fc1 a)) \<and> 0 < shape0 (weight (fc2 a)) \<longrightarrow>
            fst (Actor_reset_parameters a g) = None) \<and>
         (fst (Actor_reset_parameters a g) = None \<longrightarrow>
            (let a' = fst (snd (Actor_reset_parameters a g)) in
             list_all (in_bounds (Fin (- (3 / 1000)), Fin (3 / 1000))) (elems (weight (fc3 a'))) \<and>
             list_all (in_bounds (fst (hidden_init (fc1 a')))) (elems (weight (fc1 a'))) \<and>
             list_all (in_bounds (fst (hidden_init (fc2 a')))) (elems (weight (fc2 a'))))) \<and>
         (0 < shape0 (weight (fcs1 c)) \<and> 0 < shape0 (weight (cfc2 c)) \<longrightarrow>
            fst (Critic_reset_parameters c g) = None) \<and>
         (fst (Critic_reset_parameters c g) = None \<longrightarrow>
            (let c' = fst (snd (Critic_reset_parameters c g)) in
             list_all (in_bounds (Fin (- (3 / 1000)), Fin (3 / 1000))) (elems (weight (cfc3 c'))) \<and>
             list_all (in_bounds (fst (hidden_init (fcs1 c')))) (elems (weight (fcs1 c'))) \<and>
             list_all (in_bounds (fst (hidden_init (cfc2 c')))) (elems (weight (cfc2 c')))))"
proof (intro conjI impI)
  assume "0 < shape0 (weight (fc1 a)) \<and> 0 < shape0 (weight (fc2 a))"
  then show "fst (Actor_reset_parameters a g) = None"
    by (simp add: Actor_reset_parameters_result Let_def reinit_hidden_eq reinit_final_eq)
next
  assume "0 < shape0 (weight (fcs1 c)) \<and> 0 < shape0 (weight (cfc2 c))"
  then show "fst (Critic_reset_parameters c g) = None"
    by (simp add: Critic_reset_parameters_result Let_def reinit_hidden_eq reinit_final_eq)
next
  let ?r1 = "reinit_hidden (fc1 a) g"
  let ?r2 = "reinit_hidden (fc2 a) (snd (snd ?r1))"
  let ?r3 = "reinit_final (fc3 a) (snd (snd ?r2))"
  assume ok: "fst (Actor_reset_parameters a g) = None"
  then have e: "fst ?r1 = None" "fst ?r2 = None"
    by (auto simp: Actor_reset_parameters_result Let_def split: if_splits)
  then have a': "fst (snd (Actor_reset_parameters a g)) =
                   a\<lparr>fc1 := fst (snd ?r1), fc2 := fst (snd ?r2), fc3 := fst (snd ?r3)\<rparr>"
    by (simp add: Actor_reset_parameters_result Let_def)
  have g1: "unit_draws (snd (snd ?r1))" using assms by (rule reinit_hidden_draws)
  have g2: "unit_draws (snd (snd ?r2))" using g1 by (rule reinit_hidden_draws)
  show "let a' = fst (snd (Actor_reset_parameters a g)) in
             list_all (in_bounds (Fin (- (3 / 1000)), Fin (3 / 1000))) (elems (weight (fc3 a'))) \<and>
             list_all (in_bounds (fst (hidden_init (fc1 a')))) (elems (weight (fc1 a'))) \<and>
             list_all (in_bounds (fst (hidden_init (fc2 a')))) (elems (weight (fc2 a')))"
    using reinit_final_bounds [OF g2, of "fc3 a"]
      reinit_hidden_bounds [OF assms e(1)] reinit_hidden_bounds [OF g1 e(2)]
    by (simp add: a' Let_def)
next
  let ?r1 = "reinit_hidden (fcs1 c) g"
  let ?r2 = "reinit_hidden (cfc2 c) (snd (snd ?r1))"
  let ?r3 = "reinit_final (cfc3 c) (snd (snd ?r2))"
  assume ok: "fst (Critic_reset_parameters c g) = None"
  then have e: "fst ?r1 = None" "fst ?r2 = None"
    by (auto simp: Critic_reset_parameters_result Let_def split: if_splits)
  then have c': "fst (snd (Critic_reset_parameters c g)) =
                   c\<lparr>fcs1 := fst (snd ?r1), cfc2 := fst (snd ?r2), cfc3 := fst (snd ?r3)\<rparr>"
    by (simp add: Critic_reset_parameters_result Let_def)
  have g1: "unit_draws (snd (snd ?r1))" using assms by (rule reinit_hidden_draws)
  have g2: "unit_draws (snd (snd ?r2))" using g1 by (rule reinit_hidden_draws)
  show "let c' = fst (snd (Critic_reset_parameters c g)) in
             list_all (in_bounds (Fin (- (3 / 1000)), Fin (3 / 1000))) (elems (weight (cfc3 c'))) \<and>
             list_all (in_bounds (fst (hidden_init (fcs1 c')))) (elems (weight (fcs1 c'))) \<and>
             list_all (in_bounds (fst (hidden_init (cfc2 c')))) (elems (weight (cfc2 c')))"
    using reinit_final_bounds [OF g2, of "cfc3 c"]
      reinit_hidden_bounds [OF assms e(1)] reinit_hidden_bounds [OF g1 e(2)]
    by (simp add: c' Let_def)
qed

theorem reset_parameters_weight_bounds_witness:
  "unit_draws ex_draws \<and>
   fst (Actor_reset_parameters actor_ex ex_draws) = None \<and>
   list_all (in_bounds (Fin (- (3 / 1000)), Fin (3 / 1000)))
     (elems (weight (fc3 (fst (snd (Actor_reset_parameters actor_ex ex_draws)))))) \<and>
   list_all (in_bounds (fst (hidden_init (fc1 (fst (snd (Actor_reset_parameters actor_ex ex_draws)))))))
     (elems (weight (fc1 (fst (snd (Actor_reset_parameters actor_ex ex_draws)))))) \<and>
   fst (Critic_reset_parameters critic_ex ex_draws) = None \<and>
   list_all (in_bounds (Fin (- (3 / 1000)), Fin (3 / 1000)))
     (elems (weight (cfc3 (fst (snd (Critic_reset_parameters critic_ex ex_draws)))))) \<and>
   list_all (in_bounds (fst (hidden_init (cfc2 (fst (snd (Critic_reset_parameters critic_ex ex_draws)))))))
     (elems (weight (cfc2 (fst (snd (Critic_reset_parameters critic_ex ex_draws))))))"
proof -
  have h: "unit_draws ex_draws" by (simp add: unit_draws_def ex_draws_def)
  have p: "0 < shape0 (weight (fc1 actor_ex)) \<and> 0 < shape0 (weight (fc2 actor_ex))"
    "0 < shape0 (weight (fcs1 critic_ex)) \<and> 0 < shape0 (weight (cfc2 critic_ex))"
    by (simp_all add: actor_ex_def critic_ex_def)
  note T = reset_parameters_weight_bounds [OF h, of actor_ex critic_ex]
  from T p have n: "fst (Actor_reset_parameters actor_ex ex_draws) = None"
    "fst (Critic_reset_parameters critic_ex ex_draws) = None"
    by blast+
  with T h show ?thesis by (simp add: Let_def)
qed

subsection \<open>The Actor\<close>

lemma actor_ex_ok: "Actor_ok actor_ex 2 1"
  by (simp add: Actor_ok_def actor_ex_def Linear_ok_def tensor_ok_def)

text \<open>
  The constructor, called with sizes that are not negative and hidden layers that are
  not empty, returns an Actor of the shapes that the properties below assume.
\<close>

lemma Actor_init_ok:
  assumes "0 \<le> state_size" and "0 < fc1_units" and "0 < fc2_units" and "0 \<le> action_size"
  shows "\<exists>self. fst (Actor_init G state_size action_size seed fc1_units fc2_units g0) = Inr self \<and>
           Actor_ok self (nat state_size) (nat action_size)"
proof -
  obtain l1 g1 where 1: "Linear_init state_size fc1_units (G seed) = (Inr l1, g1)"
    "Linear_ok l1" "in_features l1 = nat state_size" "out_features l1 = nat fc1_units"
    using assms Linear_init_ok [of state_size fc1_units "G seed"] by auto
  obtain l2 g2 where 2: "Linear_init fc1_units fc2_units g1 = (Inr l2, g2)"
    "Linear_ok l2" "in_features l2 = nat fc1_units" "out_features l2 = nat fc2_units"
    using assms Linear_init_ok [of fc1_units fc2_units g1] by auto
  obtain l3 g3 where 3: "Linear_init fc2_units action_size g2 = (Inr l3, g3)"
    "Linear_ok l3" "in_features l3 = nat fc2_units" "out_features l3 = nat action_size"
    using assms Linear_init_ok [of fc2_units action_size g2] by auto
  let ?a = "\<lparr>fc1 = l1, fc2 = l2, fc3 = l3\<rparr>"
  let ?r = "Actor_reset_parameters ?a g3"
  have pos: "0 < out_features l1" "0 < out_features l2"
    using assms 1(4) 2(4) by simp_all
  have e: "fst ?r = None"
    using 1(2) 2(2) pos
    by (simp add: Actor_reset_parameters_result Let_def reinit_hidden_None reinit_final_eq)
  have ok: "Actor_ok (fst (snd ?r)) (nat state_size) (nat action_size)"
    using 1 2 3 pos
    by (simp add: Actor_reset_parameters_result Let_def reinit_hidden_None Actor_ok_def
        reinit_hidden_ok reinit_final_ok)
  obtain a' g4 where r: "?r = (None, a', g4)"
    using e by (metis prod.collapse)
  have "fst (Actor_init G state_size action_size seed fc1_units fc2_units g0) = Inr a'"
    by (simp add: Actor_init_def 1(1) 2(1) 3(1) r)
  moreover have "Actor_ok a' (nat state_size) (nat action_size)"
    using ok r by simp
  ultimately show ?thesis by blast
qed

text \<open>
  C6. Two constructions of an Actor with the same seed and the same sizes give the same
  Actor, whatever the state of the process-wide generator before each of them: the
  constructor seeds the generator before it draws anything.
\<close>

theorem Actor_init_deterministic:
  "Actor_init G state_size action_size seed fc1_units fc2_units g =
   Actor_init G state_size action_size seed fc1_units fc2_units g'"
  by (simp add: Actor_init_def)

theorem Actor_init_deterministic_witness:
  "Actor_init ex_G 2 1 7 1 1 (\<lambda>k. 0) = Actor_init ex_G 2 1 7 1 1 ex_draws"
  by (rule Actor_init_deterministic)

text \<open>
  C2. On a state tensor of shape \<open>N \<times> state_size\<close>, \<^verbatim>\<open>Actor.forward\<close> raises nothing
  and returns \<open>tanh (fc3 (relu (fc2 (relu (fc1 state)))))\<close>, a tensor of shape
  \<open>N \<times> action_size\<close>.
\<close>

theorem Actor_forward_composition:
  assumes "Actor_ok self state_size action_size"
    and "tensor_ok state" and "shape1 state = state_size"
  shows "Actor_forward self state =
           Inr (tanh_t (affine (fc3 self) (relu (affine (fc2 self) (relu (affine (fc1 self) state)))))) \<and>
         (\<exists>y. Actor_forward self state = Inr y \<and> tensor_ok y \<and>
              shape0 y = shape0 state \<and> shape1 y = action_size)"
proof -
  let ?h1 = "affine (fc1 self) state"
  let ?h2 = "affine (fc2 self) (relu ?h1)"
  let ?h3 = "affine (fc3 self) (relu ?h2)"
  from assms(1) have ok: "Linear_ok (fc1 self)" "Linear_ok (fc2 self)" "Linear_ok (fc3 self)"
    and dims: "in_features (fc1 self) = state_size"
      "in_features (fc2 self) = out_features (fc1 self)"
      "in_features (fc3 self) = out_features (fc2 self)"
      "out_features (fc3 self) = action_size"
    by (simp_all add: Actor_ok_def)
  have out: "shape0 (weight (fc1 self)) = out_features (fc1 self)"
    "shape0 (weight (fc2 self)) = out_features (fc2 self)"
    "shape0 (weight (fc3 self)) = out_features (fc3 self)"
    using ok by (simp_all add: Linear_ok_def)
  have s1: "Linear_forward (fc1 self) state = Inr ?h1"
    using ok(1) assms(3) dims(1) by (simp add: Linear_forward_ok)
  have s2: "Linear_forward (fc2 self) (relu ?h1) = Inr ?h2"
    using ok(2) dims(2) out(1) by (simp add: Linear_forward_ok)
  have s3: "Linear_forward (fc3 self) (relu ?h2) = Inr ?h3"
    using ok(3) dims(3) out(2) by (simp add: Linear_forward_ok)
  have run: "Actor_forward self state = Inr (tanh_t ?h3)"
    by (simp add: Actor_forward_def s1 s2 s3)
  have wf: "tensor_ok (tanh_t ?h3)"
    using ok assms(2) by (intro tanh_t_ok affine_ok relu_ok)
  have shp: "shape0 (tanh_t ?h3) = shape0 state" "shape1 (tanh_t ?h3) = action_size"
    using out(3) dims(4) by simp_all
  show ?thesis using run wf shp by simp
qed

theorem Actor_forward_composition_witness:
  "Actor_forward actor_ex state_2x2 = Inr \<lparr>shape0 = 2, shape1 = 1, rows = [[tanh 3], [0]]\<rparr>"
proof -
  have "shape1 state_2x2 = 2" by (simp add: state_2x2_def)
  from Actor_forward_composition [OF actor_ex_ok ex_tensors_ok(1) this]
  have "Actor_forward actor_ex state_2x2 =
          Inr (tanh_t (affine (fc3 actor_ex) (relu (affine (fc2 actor_ex)
                 (relu (affine (fc1 actor_ex) state_2x2))))))"
    by simp
  also have "affine (fc1 actor_ex) state_2x2 = \<lparr>shape0 = 2, shape1 = 1, rows = [[3], [- 1]]\<rparr>"
    by (simp add: affine_def actor_ex_def state_2x2_def dot_def)
  also have "relu \<lparr>shape0 = 2, shape1 = 1, rows = [[3], [- 1]]\<rparr> =
               \<lparr>shape0 = 2, shape1 = 1, rows = [[3], [0]]\<rparr>"
    by (simp add: relu_def)
  also have "affine (fc2 actor_ex) \<lparr>shape0 = 2, shape1 = 1, rows = [[3], [0]]\<rparr> =
               \<lparr>shape0 = 2, shape1 = 1, rows = [[4], [1]]\<rparr>"
    by (simp add: affine_def actor_ex_def dot_def)
  also have "relu \<lparr>shape0 = 2, shape1 = 1, rows = [[4], [1]]\<rparr> =
               \<lparr>shape0 = 2, shape1 = 1, rows = [[4], [1]]\<rparr>"
    by (simp add: relu_def)
  also have "affine (fc3 actor_ex) \<lparr>shape0 = 2, shape1 = 1, rows = [[4], [1]]\<rparr> =
               \<lparr>shape0 = 2, shape1 = 1, rows = [[3], [0]]\<rparr>"
    by (simp add: affine_def actor_ex_def dot_def)
  also have "tanh_t \<lparr>shape0 = 2, shape1 = 1, rows = [[3], [0]]\<rparr> =
               \<lparr>shape0 = 2, shape1 = 1, rows = [[tanh 3], [0]]\<rparr>"
    by (simp add: tanh_t_def)
  finally show ?thesis .
qed

text \<open>
  With real numbers for the elements, every element of a tensor that
  \<^verbatim>\<open>Actor.forward\<close> returns lies strictly between \<open>-1\<close> and \<open>1\<close>. The statement is
  about the hyperbolic tangent of the reals; the rounded tangent of the library's
  32-bit floating-point numbers, which reaches \<open>1.0\<close> on large arguments, is outside
  this model.
\<close>

lemma Actor_forward_real_interval:
  assumes "Actor_forward self state = Inr y"
  shows "list_all (\<lambda>v. - 1 < v \<and> v < 1) (elems y)"
proof -
  have "list_all (\<lambda>v. - 1 < v \<and> v < 1) (elems (tanh_t x))" for x
    by (simp add: tanh_t_def elems_def list_all_iff tanh_real_lt_1 tanh_real_gt_neg1)
  with assms show ?thesis
    by (auto simp: Actor_forward_def split: sum.splits)
qed

subsection \<open>The Critic\<close>

lemma critic_ex_ok: "Critic_ok critic_ex 1 1"
  by (simp add: Critic_ok_def critic_ex_def Linear_ok_def BatchNorm1d_ok_def tensor_ok_def)

lemma critic_ex_eval_ok: "Critic_ok critic_ex_eval 1 1"
  by (simp add: Critic_ok_def critic_ex_eval_def critic_ex_def Linear_ok_def
      BatchNorm1d_ok_def tensor_ok_def)

lemma Critic_init_ok:
  assumes "0 \<le> state_size" and "0 < fcs1_units" and "0 < fc2_units" and "0 \<le> action_size"
  shows "\<exists>self. fst (Critic_init G state_size action_size seed fcs1_units fc2_units g0) = Inr self \<and>
           Critic_ok self (nat state_size) (nat action_size) \<and> training (bn1 self)"
proof -
  obtain l1 g1 where 1: "Linear_init state_size fcs1_units (G seed) = (Inr l1, g1)"
    "Linear_ok l1" "in_features l1 = nat state_size" "out_features l1 = nat fcs1_units"
    using assms Linear_init_ok [of state_size fcs1_units "G seed"] by auto
  obtain b where b: "BatchNorm1d_init fcs1_units = Inr b" "BatchNorm1d_ok b"
    "num_features b = nat fcs1_units" "training b"
    using assms BatchNorm1d_init_ok [of fcs1_units] by auto
  obtain l2 g2 where 2: "Linear_init (fcs1_units + action_size) fc2_units g1 = (Inr l2, g2)"
    "Linear_ok l2" "in_features l2 = nat (fcs1_units + action_size)"
    "out_features l2 = nat fc2_units"
    using assms Linear_init_ok [of "fcs1_units + action_size" fc2_units g1] by auto
  obtain l3 g3 where 3: "Linear_init fc2_units 1 g2 = (Inr l3, g3)"
    "Linear_ok l3" "in_features l3 = nat fc2_units" "out_features l3 = nat 1"
    using assms Linear_init_ok [of fc2_units 1 g2] by auto
  let ?c = "\<lparr>fcs1 = l1, bn1 = b, cfc2 = l2, cfc3 = l3\<rparr>"
  let ?r = "Critic_reset_parameters ?c g3"
  have pos: "0 < out_features l1" "0 < out_features l2"
    using assms 1(4) 2(4) by simp_all
  have cat: "nat (fcs1_units + action_size) = nat fcs1_units + nat action_size"
    using assms by (simp add: nat_add_distrib)
  have e: "fst ?r = None"
    using 1(2) 2(2) pos
    by (simp add: Critic_reset_parameters_result Let_def reinit_hidden_None reinit_final_eq)
  have ok: "Critic_ok (fst (snd ?r)) (nat state_size) (nat action_size) \<and>
            training (bn1 (fst (snd ?r)))"
    using 1 2 3 b pos cat
    by (simp add: Critic_reset_parameters_result Let_def reinit_hidden_None Critic_ok_def
        reinit_hidden_ok reinit_final_ok)
  obtain c' g4 where r: "?r = (None, c', g4)"
    using e by (metis prod.collapse)
  have "fst (Critic_init G state_size action_size seed fcs1_units fc2_units g0) = Inr c'"
    by (simp add: Critic_init_def 1(1) b(1) 2(1) 3(1) r)
  moreover have "Critic_ok c' (nat state_size) (nat action_size) \<and> training (bn1 c')"
    using ok r by simp
  ultimately show ?thesis by blast
qed

lemma Critic_okD:
  assumes "Critic_ok self state_size action_size"
  shows "Linear_ok (fcs1 self)" "Linear_ok (cfc2 self)" "Linear_ok (cfc3 self)"
    "in_features (fcs1 self) = state_size"
    "num_features (bn1 self) = shape0 (weight (fcs1 self))"
    "in_features (cfc2 self) = shape0 (weight (fcs1 self)) + action_size"
    "in_features (cfc3 self) = shape0 (weight (cfc2 self))"
    "shape0 (weight (cfc3 self)) = 1"
  using assms by (simp_all add: Critic_ok_def Linear_ok_def)

text \<open>
  The run of \<^verbatim>\<open>Critic.forward\<close> after its first layer: the state it leaves, what it
  returns when the normalisation refuses the batch, and what it goes on to compute
  when the normalisation accepts it.
\<close>

lemma Critic_forward_state:
  assumes "Linear_forward (fcs1 self) state = Inr h"
  shows "snd (Critic_forward self state action) =
           self\<lparr>bn1 := snd (BatchNorm1d_forward (bn1 self) h)\<rparr>"
  using assms
  by (cases "BatchNorm1d_forward (bn1 self) h")
     (simp add: Critic_forward_def Let_def split: sum.splits)

lemma Critic_forward_bn_error:
  assumes "Linear_forward (fcs1 self) state = Inr h"
    and "fst (BatchNorm1d_forward (bn1 self) h) = Inl e"
  shows "fst (Critic_forward self state action) = Inl e"
  using assms
  by (cases "BatchNorm1d_forward (bn1 self) h") (simp add: Critic_forward_def)

lemma Critic_forward_after_bn:
  assumes "Linear_forward (fcs1 self) state = Inr h"
    and "fst (BatchNorm1d_forward (bn1 self) h) = Inr n"
  shows "fst (Critic_forward self state action) =
           (case cat_dim1 (relu n) action of
              Inl e \<Rightarrow> Inl e
            | Inr x \<Rightarrow>
                (case Linear_forward (cfc2 self) x of
                   Inl e \<Rightarrow> Inl e
                 | Inr h2 \<Rightarrow> Linear_forward (cfc3 self) (relu h2)))"
  using assms
  by (cases "BatchNorm1d_forward (bn1 self) h")
     (simp add: Critic_forward_def Let_def split: sum.splits)

text \<open>
  The shapes and the invariants of the normalisation layer survive every call of
  \<^verbatim>\<open>Critic.forward\<close>, whether it raises or not.
\<close>

lemma sq_dev_nonneg: "0 \<le> sq_dev xs"
  unfolding sq_dev_def by (rule sum_list_nonneg) auto

lemma moving_average_length:
  "length old = n \<Longrightarrow> length new = n \<Longrightarrow> length (moving_average m old new) = n"
  by (simp add: moving_average_def)

lemma moving_average_nonneg:
  assumes "0 \<le> m" and "m \<le> 1"
    and "list_all (\<lambda>v. 0 \<le> v) old" and "list_all (\<lambda>v. 0 \<le> v) new"
  shows "list_all (\<lambda>v. 0 \<le> v) (moving_average m old new)"
proof -
  have "0 \<le> (1 - m) * a + m * b" if "(a, b) \<in> set (zip old new)" for a b
  proof -
    from that have "a \<in> set old" and "b \<in> set new"
      by (auto dest: set_zip_leftD set_zip_rightD)
    with assms have "0 \<le> a" and "0 \<le> b" by (auto simp: list_all_iff)
    with assms(1,2) show ?thesis by simp
  qed
  then show ?thesis by (auto simp: moving_average_def list_all_iff)
qed

lemma batch_var_unbiased_nonneg:
  assumes "1 \<le> shape0 x"
  shows "list_all (\<lambda>v. 0 \<le> v) (batch_var_unbiased x)"
  using assms by (simp add: batch_var_unbiased_def list_all_iff sq_dev_nonneg)

lemma BatchNorm1d_forward_keeps_ok:
  assumes "BatchNorm1d_ok b"
  shows "BatchNorm1d_ok (snd (BatchNorm1d_forward b x)) \<and>
         num_features (snd (BatchNorm1d_forward b x)) = num_features b \<and>
         training (snd (BatchNorm1d_forward b x)) = training b"
proof (cases "training b \<and> shape0 x \<noteq> 1 \<and> shape1 x = num_features b \<and> shape0 x \<noteq> 0")
  case False
  then show ?thesis using assms
    by (auto simp: BatchNorm1d_forward_def Let_def BatchNorm1d_ok_def)
next
  case True
  then have n: "1 \<le> shape0 x" by simp
  have len: "length (batch_mean x) = num_features b"
    "length (batch_var_unbiased x) = num_features b"
    using True by (simp_all add: batch_mean_def batch_var_unbiased_def)
  have "list_all (\<lambda>v. 0 \<le> v)
          (moving_average (momentum b) (running_var b) (batch_var_unbiased x))"
    using assms batch_var_unbiased_nonneg [OF n]
    by (intro moving_average_nonneg) (simp_all add: BatchNorm1d_ok_def)
  then show ?thesis using True assms len
    by (simp add: BatchNorm1d_forward_def Let_def BatchNorm1d_ok_def moving_average_length)
qed

lemma Critic_forward_keeps_ok:
  assumes "Critic_ok self state_size action_size"
  shows "Critic_ok (snd (Critic_forward self state action)) state_size action_size"
proof (cases "Linear_forward (fcs1 self) state")
  case (Inl e)
  then show ?thesis using assms by (simp add: Critic_forward_def)
next
  case (Inr h)
  then have "snd (Critic_forward self state action) =
           self\<lparr>bn1 := snd (BatchNorm1d_forward (bn1 self) h)\<rparr>"
    by (rule Critic_forward_state)
  then show ?thesis
    using assms BatchNorm1d_forward_keeps_ok [of "bn1 self" h]
    by (simp add: Critic_ok_def)
qed

lemma Critic_forward_value:
  assumes "Critic_ok self state_size action_size"
    and "tensor_ok state" and "shape1 state = state_size"
    and "tensor_ok action" and "shape1 action = action_size"
    and "shape0 action = shape0 state"
    and "training (bn1 self) \<longrightarrow> shape0 state \<noteq> 1"
  shows "fst (Critic_forward self state action) =
           Inr (affine (cfc3 self)
                  (relu (affine (cfc2 self)
                     (concat1 (relu (batchnorm (bn1 self) (affine (fcs1 self) state))) action))))"
proof -
  let ?h = "affine (fcs1 self) state"
  let ?xs = "relu (batchnorm (bn1 self) ?h)"
  let ?x = "concat1 ?xs action"
  let ?h2 = "affine (cfc2 self) ?x"
  note d = Critic_okD [OF assms(1)]
  have s1: "Linear_forward (fcs1 self) state = Inr ?h"
    using d(1,4) assms(3) by (simp add: Linear_forward_ok)
  have s2: "fst (BatchNorm1d_forward (bn1 self) ?h) = Inr (batchnorm (bn1 self) ?h)"
    using d(1,5) assms(2,7) by (intro BatchNorm1d_forward_accepts) (simp_all add: affine_ok)
  have s3: "cat_dim1 ?xs action = Inr ?x"
    using assms(6) by (simp add: cat_dim1_ok)
  have s4: "Linear_forward (cfc2 self) ?x = Inr ?h2"
    using d(2,6) assms(5) by (simp add: Linear_forward_ok)
  have s5: "Linear_forward (cfc3 self) (relu ?h2) = Inr (affine (cfc3 self) (relu ?h2))"
    using d(3,7) by (simp add: Linear_forward_ok)
  show ?thesis
    by (simp add: Critic_forward_after_bn [OF s1 s2] s3 s4 s5)
qed

text \<open>
  C3. On a state of shape \<open>N \<times> state_size\<close> and an action of shape
  \<open>N \<times> action_size\<close> (in training mode \<open>N \<noteq> 1\<close>), \<^verbatim>\<open>Critic.forward\<close> computes
  \<open>xs = relu (batchnorm (fcs1 state))\<close>, then \<open>x = concat xs action\<close> along the
  feature axis, then \<open>relu (fc2 x)\<close>, and returns \<open>fc3\<close> of that: the last step is
  the affine map of \<open>fc3\<close>, with no activation after it. The call changes nothing of the
  Critic but the normalisation layer.
\<close>

theorem Critic_forward_composition:
  assumes "Critic_ok self state_size action_size"
    and "tensor_ok state" and "shape1 state = state_size"
    and "tensor_ok action" and "shape1 action = action_size"
    and "shape0 action = shape0 state"
    and "training (bn1 self) \<longrightarrow> shape0 state \<noteq> 1"
  shows "fst (Critic_forward self state action) =
           Inr (affine (cfc3 self)
                  (relu (affine (cfc2 self)
                     (concat1 (relu (batchnorm (bn1 self) (affine (fcs1 self) state))) action)))) \<and>
         snd (Critic_forward self state action) =
           self\<lparr>bn1 := snd (BatchNorm1d_forward (bn1 self) (affine (fcs1 self) state))\<rparr>"
proof
  show "fst (Critic_forward self state action) =
           Inr (affine (cfc3 self)
                  (relu (affine (cfc2 self)
                     (concat1 (relu (batchnorm (bn1 self) (affine (fcs1 self) state))) action))))"
    using assms by (rule Critic_forward_value)
  have "Linear_forward (fcs1 self) state = Inr (affine (fcs1 self) state)"
    using Critic_okD(1,4) [OF assms(1)] assms(3) by (simp add: Linear_forward_ok)
  then show "snd (Critic_forward self state action) =
           self\<lparr>bn1 := snd (BatchNorm1d_forward (bn1 self) (affine (fcs1 self) state))\<rparr>"
    by (rule Critic_forward_state)
qed

lemma critic_ex_hidden:
  "relu (batchnorm (bn1 critic_ex) (affine (fcs1 critic_ex) state_2x1)) =
     \<lparr>shape0 = 2, shape1 = 1, rows = [[0], [0]]\<rparr>"
proof -
  have h: "affine (fcs1 critic_ex) state_2x1 = \<lparr>shape0 = 2, shape1 = 1, rows = [[1], [1]]\<rparr>"
    by (simp add: affine_def critic_ex_def state_2x1_def dot_def)
  have n: "batchnorm (bn1 critic_ex) \<lparr>shape0 = 2, shape1 = 1, rows = [[1], [1]]\<rparr> =
             \<lparr>shape0 = 2, shape1 = 1, rows = [[0], [0]]\<rparr>"
    by (simp add: batchnorm_def normalize_def batch_mean_def column_def mean_def critic_ex_def)
  have r: "relu \<lparr>shape0 = 2, shape1 = 1, rows = [[0], [0]]\<rparr> =
             \<lparr>shape0 = 2, shape1 = 1, rows = [[0], [0]]\<rparr>"
    by (simp add: relu_def)
  show ?thesis unfolding h n r ..
qed

theorem Critic_forward_composition_witness:
  "fst (Critic_forward critic_ex state_2x1 action_2x1) =
     Inr \<lparr>shape0 = 2, shape1 = 1, rows = [[7], [13]]\<rparr>"
proof -
  have s: "shape1 state_2x1 = 1" "shape1 action_2x1 = 1" "shape0 action_2x1 = shape0 state_2x1"
    "training (bn1 critic_ex) \<longrightarrow> shape0 state_2x1 \<noteq> 1"
    by (simp_all add: state_2x1_def action_2x1_def)
  have x: "concat1 \<lparr>shape0 = 2, shape1 = 1, rows = [[0], [0]]\<rparr> action_2x1 =
             \<lparr>shape0 = 2, shape1 = 2, rows = [[0, 2], [0, 5]]\<rparr>"
    by (simp add: concat1_def action_2x1_def)
  have h2: "relu (affine (cfc2 critic_ex) \<lparr>shape0 = 2, shape1 = 2, rows = [[0, 2], [0, 5]]\<rparr>) =
              \<lparr>shape0 = 2, shape1 = 1, rows = [[2], [5]]\<rparr>"
    by (simp add: affine_def relu_def critic_ex_def dot_def)
  have q: "affine (cfc3 critic_ex) \<lparr>shape0 = 2, shape1 = 1, rows = [[2], [5]]\<rparr> =
             \<lparr>shape0 = 2, shape1 = 1, rows = [[7], [13]]\<rparr>"
    by (simp add: affine_def critic_ex_def dot_def)
  from Critic_forward_composition [OF critic_ex_ok ex_tensors_ok(3) s(1) ex_tensors_ok(5) s(2,3,4)]
  have "fst (Critic_forward critic_ex state_2x1 action_2x1) =
           Inr (affine (cfc3 critic_ex)
                  (relu (affine (cfc2 critic_ex)
                     (concat1 (relu (batchnorm (bn1 critic_ex) (affine (fcs1 critic_ex) state_2x1)))
                        action_2x1))))" ..
  then show ?thesis unfolding critic_ex_hidden x h2 q .
qed

text \<open>
  C8. With inputs of the right shapes and equal batch sizes: in training mode a batch of
  size 1 makes \<^verbatim>\<open>Critic.forward\<close> raise the error of the normalisation layer; a batch
  of size at least 2 in training mode, and of size at least 1 in evaluation mode, gives
  a tensor of shape \<open>(batch_size, 1)\<close>.
\<close>

theorem Critic_forward_batch_size:
  assumes "Critic_ok self state_size action_size"
    and "tensor_ok state" and "shape1 state = state_size"
    and "tensor_ok action" and "shape1 action = action_size"
    and "shape0 action = shape0 state"
  shows "(training (bn1 self) \<and> shape0 state = 1 \<longrightarrow>
            fst (Critic_forward self state action) = Inl BatchSizeOne) \<and>
         (training (bn1 self) \<and> 2 \<le> shape0 state \<or> \<not> training (bn1 self) \<and> 1 \<le> shape0 state \<longrightarrow>
            (\<exists>q. fst (Critic_forward self state action) = Inr q \<and> tensor_ok q \<and>
                 shape0 q = shape0 state \<and> shape1 q = 1))"
proof (intro conjI impI)
  let ?h = "affine (fcs1 self) state"
  note d = Critic_okD [OF assms(1)]
  have s1: "Linear_forward (fcs1 self) state = Inr ?h"
    using d(1,4) assms(3) by (simp add: Linear_forward_ok)
  {
    assume "training (bn1 self) \<and> shape0 state = 1"
    then have "fst (BatchNorm1d_forward (bn1 self) ?h) = Inl BatchSizeOne"
      by (simp add: BatchNorm1d_forward_refuses)
    then show "fst (Critic_forward self state action) = Inl BatchSizeOne"
      by (rule Critic_forward_bn_error [OF s1])
  }
  {
    assume "training (bn1 self) \<and> 2 \<le> shape0 state \<or> \<not> training (bn1 self) \<and> 1 \<le> shape0 state"
    then have mode: "training (bn1 self) \<longrightarrow> shape0 state \<noteq> 1" by auto
    let ?x = "concat1 (relu (batchnorm (bn1 self) ?h)) action"
    let ?q = "affine (cfc3 self) (relu (affine (cfc2 self) ?x))"
    have run: "fst (Critic_forward self state action) = Inr ?q"
      using Critic_forward_value [OF assms mode] .
    have "tensor_ok ?x"
      using d(1) assms(2,4,6) by (intro concat1_ok relu_ok batchnorm_ok affine_ok) simp_all
    then have "tensor_ok ?q"
      using d(2,3) by (intro affine_ok relu_ok)
    moreover have "shape0 ?q = shape0 state" "shape1 ?q = 1"
      using d(8) by simp_all
    ultimately show "\<exists>q. fst (Critic_forward self state action) = Inr q \<and> tensor_ok q \<and>
                 shape0 q = shape0 state \<and> shape1 q = 1"
      using run by simp
  }
qed

theorem Critic_forward_batch_size_witness:
  "fst (Critic_forward critic_ex state_1x1 action_1x1) = Inl BatchSizeOne \<and>
   (\<exists>q. fst (Critic_forward critic_ex state_2x1 action_2x1) = Inr q \<and> tensor_ok q \<and>
        shape0 q = 2 \<and> shape1 q = 1) \<and>
   (\<exists>q. fst (Critic_forward critic_ex_eval state_1x1 action_1x1) = Inr q \<and> tensor_ok q \<and>
        shape0 q = 1 \<and> shape1 q = 1)"
proof -
  have t: "training (bn1 critic_ex)" "\<not> training (bn1 critic_ex_eval)"
    by (simp_all add: critic_ex_def critic_ex_eval_def)
  have s1: "shape1 state_1x1 = 1" "shape1 action_1x1 = 1" "shape0 action_1x1 = shape0 state_1x1"
    "shape0 state_1x1 = 1"
    by (simp_all add: state_1x1_def action_1x1_def)
  have s2: "shape1 state_2x1 = 1" "shape1 action_2x1 = 1" "shape0 action_2x1 = shape0 state_2x1"
    "shape0 state_2x1 = 2"
    by (simp_all add: state_2x1_def action_2x1_def)
  show ?thesis
    using Critic_forward_batch_size [OF critic_ex_ok ex_tensors_ok(2) s1(1) ex_tensors_ok(4) s1(2,3)]
      Critic_forward_batch_size [OF critic_ex_ok ex_tensors_ok(3) s2(1) ex_tensors_ok(5) s2(2,3)]
      Critic_forward_batch_size [OF critic_ex_eval_ok ex_tensors_ok(2) s1(1) ex_tensors_ok(4) s1(2,3)]
    by (simp add: t s1(4) s2(4))
qed

text \<open>
  C7, as stated, fails: the claim is that \<^verbatim>\<open>Critic.forward\<close> raises a
  dimension-mismatch error whenever the batch sizes of state and action differ. In
  training mode, on a state batch of size 1 and an action batch of size 2, the
  normalisation layer comes first and raises its own error, on the size of the batch.
\<close>

theorem Critic_forward_batch_one_counterexample:
  "Critic_ok critic_ex 1 1 \<and> tensor_ok state_1x1 \<and> tensor_ok action_2x1 \<and>
   shape0 state_1x1 \<noteq> shape0 action_2x1 \<and>
   fst (Critic_forward critic_ex state_1x1 action_2x1) = Inl BatchSizeOne \<and>
   fst (Critic_forward critic_ex state_1x1 action_2x1) \<noteq> Inl ShapeMismatch"
proof -
  have "Linear_forward (fcs1 critic_ex) state_1x1 = Inr \<lparr>shape0 = 1, shape1 = 1, rows = [[1]]\<rparr>"
    by (simp add: Linear_forward_def affine_def critic_ex_def state_1x1_def dot_def)
  moreover have "BatchNorm1d_forward (bn1 critic_ex) \<lparr>shape0 = 1, shape1 = 1, rows = [[1]]\<rparr> =
      (Inl BatchSizeOne, (bn1 critic_ex)\<lparr>num_batches_tracked := 1\<rparr>)"
    by (simp add: BatchNorm1d_forward_def critic_ex_def)
  ultimately have "fst (Critic_forward critic_ex state_1x1 action_2x1) = Inl BatchSizeOne"
    by (simp add: Critic_forward_def)
  then show ?thesis
    using critic_ex_ok ex_tensors_ok(2,5) by (simp add: state_1x1_def action_2x1_def)
qed

text \<open>
  C7, amended. When the batch sizes of state and action differ, or a feature dimension
  is not the one fixed at construction, \<^verbatim>\<open>Critic.forward\<close> returns no result: it
  raises a dimension-mismatch error, except that in training mode a state of the right
  feature size and of batch size 1 makes the normalisation layer raise its batch-size
  error first.
\<close>

theorem Critic_forward_mismatch:
  assumes "Critic_ok self state_size action_size"
    and "tensor_ok state" and "tensor_ok action"
    and "shape0 state \<noteq> shape0 action \<or> shape1 state \<noteq> state_size \<or> shape1 action \<noteq> action_size"
  shows "fst (Critic_forward self state action) =
           Inl (if shape1 state = state_size \<and> training (bn1 self) \<and> shape0 state = 1
                then BatchSizeOne else ShapeMismatch)"
proof (cases "shape1 state = state_size")
  case False
  then have "Linear_forward (fcs1 self) state = Inl ShapeMismatch"
    using Critic_okD(1,4) [OF assms(1)] by (simp add: Linear_forward_mismatch)
  then show ?thesis using False by (simp add: Critic_forward_def)
next
  case True
  let ?h = "affine (fcs1 self) state"
  note d = Critic_okD [OF assms(1)]
  have s1: "Linear_forward (fcs1 self) state = Inr ?h"
    using d(1,4) True by (simp add: Linear_forward_ok)
  show ?thesis
  proof (cases "training (bn1 self) \<and> shape0 state = 1")
    case True
    then have "fst (BatchNorm1d_forward (bn1 self) ?h) = Inl BatchSizeOne"
      by (simp add: BatchNorm1d_forward_refuses)
    then have "fst (Critic_forward self state action) = Inl BatchSizeOne"
      by (rule Critic_forward_bn_error [OF s1])
    then show ?thesis using True \<open>shape1 state = state_size\<close> by simp
  next
    case False
    let ?xs = "relu (batchnorm (bn1 self) ?h)"
    have s2: "fst (BatchNorm1d_forward (bn1 self) ?h) = Inr (batchnorm (bn1 self) ?h)"
      using d(1,5) assms(2) False by (intro BatchNorm1d_forward_accepts) (auto simp: affine_ok)
    have run: "fst (Critic_forward self state action) =
           (case cat_dim1 ?xs action of
              Inl e \<Rightarrow> Inl e
            | Inr x \<Rightarrow>
                (case Linear_forward (cfc2 self) x of
                   Inl e \<Rightarrow> Inl e
                 | Inr h2 \<Rightarrow> Linear_forward (cfc3 self) (relu h2)))"
      by (rule Critic_forward_after_bn [OF s1 s2])
    have "fst (Critic_forward self state action) = Inl ShapeMismatch"
    proof (cases "shape0 state = shape0 action")
      case False
      then have "cat_dim1 ?xs action = Inl ShapeMismatch"
        by (simp add: cat_dim1_mismatch)
      then show ?thesis using run by simp
    next
      case True
      then have feat: "shape1 action \<noteq> action_size"
        using assms(4) \<open>shape1 state = state_size\<close> by simp
      have s3: "cat_dim1 ?xs action = Inr (concat1 ?xs action)"
        using True by (simp add: cat_dim1_ok)
      have "Linear_forward (cfc2 self) (concat1 ?xs action) = Inl ShapeMismatch"
        using d(2,6) feat by (simp add: Linear_forward_mismatch)
      then show ?thesis using run s3 by simp
    qed
    then show ?thesis using False by auto
  qed
qed

theorem Critic_forward_mismatch_witness:
  "fst (Critic_forward critic_ex state_2x1 action_1x1) = Inl ShapeMismatch \<and>
   fst (Critic_forward critic_ex_eval state_1x1 action_2x1) = Inl ShapeMismatch \<and>
   fst (Critic_forward critic_ex state_2x2 action_2x1) = Inl ShapeMismatch \<and>
   fst (Critic_forward critic_ex state_2x1 state_2x2) = Inl ShapeMismatch \<and>
   fst (Critic_forward critic_ex state_1x1 state_2x2) = Inl BatchSizeOne"
proof -
  have a: "shape0 state_2x1 \<noteq> shape0 action_1x1 \<or> shape1 state_2x1 \<noteq> 1 \<or> shape1 action_1x1 \<noteq> 1"
    by (simp add: state_2x1_def action_1x1_def)
  have b: "shape0 state_1x1 \<noteq> shape0 action_2x1 \<or> shape1 state_1x1 \<noteq> 1 \<or> shape1 action_2x1 \<noteq> 1"
    by (simp add: state_1x1_def action_2x1_def)
  have c: "shape0 state_2x2 \<noteq> shape0 action_2x1 \<or> shape1 state_2x2 \<noteq> 1 \<or> shape1 action_2x1 \<noteq> 1"
    by (simp add: state_2x2_def action_2x1_def)
  have d: "shape0 state_2x1 \<noteq> shape0 state_2x2 \<or> shape1 state_2x1 \<noteq> 1 \<or> shape1 state_2x2 \<noteq> 1"
    by (simp add: state_2x2_def state_2x1_def)
  have e: "shape0 state_1x1 \<noteq> shape0 state_2x2 \<or> shape1 state_1x1 \<noteq> 1 \<or> shape1 state_2x2 \<noteq> 1"
    by (simp add: state_2x2_def state_1x1_def)
  show ?thesis
    using Critic_forward_mismatch [OF critic_ex_ok ex_tensors_ok(3,4) a]
      Critic_forward_mismatch [OF critic_ex_eval_ok ex_tensors_ok(2,5) b]
      Critic_forward_mismatch [OF critic_ex_ok ex_tensors_ok(1,5) c]
      Critic_forward_mismatch [OF critic_ex_ok ex_tensors_ok(3,1) d]
      Critic_forward_mismatch [OF critic_ex_ok ex_tensors_ok(2,1) e]
    by (simp add: state_1x1_def state_2x1_def state_2x2_def critic_ex_eval_def critic_ex_def)
qed

end
